theory Spec2Isabelle
  imports Complex_Main
begin

section \<open>FacePoke emotion presets: data model\<close>

text \<open>
  The repository's TypeScript is the React component \<^verbatim>\<open>EmotionPresets\<close>, present in
  three revisions: \<^verbatim>\<open>client/src/components/EmotionPresets.tsx\<close> (landmarks carry a group
  and a vector only) and two further revisions (\<^verbatim>\<open>part_000\<close>, \<^verbatim>\<open>part_001\<close>) whose landmarks
  may also carry the optional semantic controls \<^verbatim>\<open>aaa\<close> ... \<^verbatim>\<open>rotate_yaw\<close>.

  A JavaScript \<^verbatim>\<open>number\<close> is an IEEE double. It is idealised here as a real number: the
  development is about which value flows into which field of an outgoing message, not
  about rounding. \<^verbatim>\<open>Math.sqrt\<close> is \<^term>\<open>sqrt\<close> and the preset literals are the decimal
  fractions written in the source.

  \<^verbatim>\<open>LandmarkGroup\<close> and \<^verbatim>\<open>ActionMode\<close> are imported from \<^verbatim>\<open>../types\<close>, which is not among
  the source files. At run time both are strings (the handler writes
  \<^verbatim>\<open>'PRIMARY' as ActionMode\<close> and the tables write \<^verbatim>\<open>group: 'lips'\<close>), so both are strings here.
\<close>

type_synonym number = real
type_synonym LandmarkGroup = string
type_synonym ActionMode = string

text \<open>\<^verbatim>\<open>vector: { x: number; y: number; z: number }\<close>\<close>

record Vector3 =
  x :: number
  y :: number
  z :: number

text \<open>
  The optional members of a preset landmark (interface \<^verbatim>\<open>EmotionPreset\<close>, revisions
  \<^verbatim>\<open>part_000\<close> and \<^verbatim>\<open>part_001\<close>). The interface admits these nine keys and no other, so a
  key is a value of a closed type; the members that an object literal declares are kept
  as an association list in declaration order.
\<close>

datatype ParamName =
  aaa | eee | eyebrow | eyes | pupil_x | pupil_y | rotate_pitch | rotate_roll | rotate_yaw

text \<open>One element of \<^verbatim>\<open>landmarks\<close>: the group, the vector, and the optional members.\<close>

record PresetLandmark =
  group :: LandmarkGroup
  vector :: Vector3
  params :: "(ParamName \<times> number) list"

record EmotionPreset =
  name :: string
  landmarks :: "PresetLandmark list"
  description :: "string option"

text \<open>
  The object the handler builds under the key \<^verbatim>\<open>landmark\<close>:
  \<^verbatim>\<open>{ group, distance: ..., vector, ...params }\<close>. The spread members are the field
  \<open>params\<close>; they can never overwrite \<^verbatim>\<open>group\<close>, \<^verbatim>\<open>distance\<close> or \<^verbatim>\<open>vector\<close>, because
  the rest pattern removes \<^verbatim>\<open>group\<close> and \<^verbatim>\<open>vector\<close> and the interface has no member
  \<^verbatim>\<open>distance\<close>.
\<close>

record ClosestLandmark =
  group :: LandmarkGroup
  distance :: number
  vector :: Vector3
  params :: "(ParamName \<times> number) list"

text \<open>The argument of \<^verbatim>\<open>modifyImage\<close>: \<^verbatim>\<open>{ landmark: {...}, vector, mode }\<close>.\<close>

record ImageModification =
  landmark :: ClosestLandmark
  vector :: Vector3
  mode :: ActionMode

text \<open>
  One rendered \<^verbatim>\<open><button>\<close>: its \<^verbatim>\<open>key\<close>, \<^verbatim>\<open>onClick\<close> and \<^verbatim>\<open>title\<close> attributes and its text.
  (\<^verbatim>\<open>className\<close> is the same constant string on every button and is left out.)
\<close>

record 's Button =
  key :: string
  onClick :: "'s \<Rightarrow> 's"
  title :: "string option"
  children :: string

section \<open>The preset tables\<close>

text \<open>
  The emoji that starts every preset name is written as its UTF-8 bytes.
  \<^verbatim>\<open>EMOTION_PRESETS\<close> of \<^verbatim>\<open>client/src/components/EmotionPresets.tsx\<close>:
\<close>

definition EMOTION_PRESETS_tsx :: "EmotionPreset list" where
  "EMOTION_PRESETS_tsx = [
    \<lparr> name = [CHR 0xF0, CHR 0x9F, CHR 0x98, CHR 0xA0] @ '' Angry'',
      landmarks = [
        \<lparr> PresetLandmark.group = ''background'', vector = \<lparr> x = 0, y = 0.3, z = 0 \<rparr>,
          params = [] \<rparr>,
        \<lparr> PresetLandmark.group = ''leftEyebrow'', vector = \<lparr> x = 0, y = 0.3, z = 0 \<rparr>,
          params = [] \<rparr>,
        \<lparr> PresetLandmark.group = ''rightEyebrow'', vector = \<lparr> x = 0, y = 0.3, z = 0 \<rparr>,
          params = [] \<rparr>,
        \<lparr> PresetLandmark.group = ''leftEye'', vector = \<lparr> x = 0, y = 0.3, z = 0 \<rparr>,
          params = [] \<rparr>,
        \<lparr> PresetLandmark.group = ''rightEye'', vector = \<lparr> x = 0, y = 0.3, z = 0 \<rparr>,
          params = [] \<rparr>,
        \<lparr> PresetLandmark.group = ''lips'', vector = \<lparr> x = 0, y = 0.3, z = 0 \<rparr>,
          params = [] \<rparr> ],
      description = Some ''Tilted down, intense gaze'' \<rparr>,
    \<lparr> name = [CHR 0xF0, CHR 0x9F, CHR 0x98, CHR 0xA2] @ '' Sad'',
      landmarks = [
        \<lparr> PresetLandmark.group = ''background'', vector = \<lparr> x = 0, y = 0.3, z = 0 \<rparr>,
          params = [] \<rparr>,
        \<lparr> PresetLandmark.group = ''leftEyebrow'', vector = \<lparr> x = 0, y = - 0.3, z = 0 \<rparr>,
          params = [] \<rparr>,
        \<lparr> PresetLandmark.group = ''rightEyebrow'', vector = \<lparr> x = 0, y = - 0.3, z = 0 \<rparr>,
          params = [] \<rparr>,
        \<lparr> PresetLandmark.group = ''lips'', vector = \<lparr> x = 0, y = 0.3, z = 0 \<rparr>,
          params = [] \<rparr> ],
      description = Some ''Looking down, slight tilt'' \<rparr>,
    \<lparr> name = [CHR 0xF0, CHR 0x9F, CHR 0x98, CHR 0xAE] @ '' Surprised'',
      landmarks = [
        \<lparr> PresetLandmark.group = ''background'', vector = \<lparr> x = 0, y = - 0.3, z = 0 \<rparr>,
          params = [] \<rparr>,
        \<lparr> PresetLandmark.group = ''leftEyebrow'', vector = \<lparr> x = 0, y = - 0.4, z = 0 \<rparr>,
          params = [] \<rparr>,
        \<lparr> PresetLandmark.group = ''rightEyebrow'', vector = \<lparr> x = 0, y = - 0.4, z = 0 \<rparr>,
          params = [] \<rparr>,
        \<lparr> PresetLandmark.group = ''leftEye'', vector = \<lparr> x = 0, y = - 0.3, z = 0 \<rparr>,
          params = [] \<rparr>,
        \<lparr> PresetLandmark.group = ''rightEye'', vector = \<lparr> x = 0, y = - 0.3, z = 0 \<rparr>,
          params = [] \<rparr>,
        \<lparr> PresetLandmark.group = ''lips'', vector = \<lparr> x = 0, y = - 0.4, z = 0 \<rparr>,
          params = [] \<rparr> ],
      description = Some ''Looking up, wide-eyed'' \<rparr>,
    \<lparr> name = [CHR 0xF0, CHR 0x9F, CHR 0x98, CHR 0xA8] @ '' Scared'',
      landmarks = [
        \<lparr> PresetLandmark.group = ''background'', vector = \<lparr> x = 0.2, y = - 0.3, z = 0 \<rparr>,
          params = [] \<rparr>,
        \<lparr> PresetLandmark.group = ''leftEyebrow'', vector = \<lparr> x = 0, y = - 0.4, z = 0 \<rparr>,
          params = [] \<rparr>,
        \<lparr> PresetLandmark.group = ''rightEyebrow'', vector = \<lparr> x = 0, y = - 0.4, z = 0 \<rparr>,
          params = [] \<rparr>,
        \<lparr> PresetLandmark.group = ''leftEye'', vector = \<lparr> x = 0, y = - 0.3, z = 0 \<rparr>,
          params = [] \<rparr>,
        \<lparr> PresetLandmark.group = ''rightEye'', vector = \<lparr> x = 0, y = - 0.3, z = 0 \<rparr>,
          params = [] \<rparr>,
        \<lparr> PresetLandmark.group = ''lips'', vector = \<lparr> x = 0, y = - 0.3, z = 0 \<rparr>,
          params = [] \<rparr> ],
      description = Some ''Tilted back, fearful expression'' \<rparr>,
    \<lparr> name = [CHR 0xF0, CHR 0x9F, CHR 0xA4, CHR 0x94] @ '' Thinking'',
      landmarks = [
        \<lparr> PresetLandmark.group = ''faceOval'', vector = \<lparr> x = 0.3, y = 0, z = 0 \<rparr>,
          params = [] \<rparr>,
        \<lparr> PresetLandmark.group = ''leftEyebrow'', vector = \<lparr> x = 0, y = - 0.2, z = 0 \<rparr>,
          params = [] \<rparr>,
        \<lparr> PresetLandmark.group = ''lips'', vector = \<lparr> x = 0.2, y = 0, z = 0 \<rparr>,
          params = [] \<rparr> ],
      description = Some ''Tilted, contemplative look'' \<rparr>,
    \<lparr> name = [CHR 0xF0, CHR 0x9F, CHR 0x98, CHR 0x8A] @ '' Happy'',
      landmarks = [
        \<lparr> PresetLandmark.group = ''background'', vector = \<lparr> x = 0, y = - 0.1, z = 0 \<rparr>,
          params = [] \<rparr>,
        \<lparr> PresetLandmark.group = ''leftEyebrow'', vector = \<lparr> x = 0, y = - 0.2, z = 0 \<rparr>,
          params = [] \<rparr>,
        \<lparr> PresetLandmark.group = ''rightEyebrow'', vector = \<lparr> x = 0, y = - 0.2, z = 0 \<rparr>,
          params = [] \<rparr>,
        \<lparr> PresetLandmark.group = ''leftEye'', vector = \<lparr> x = 0, y = 0.2, z = 0 \<rparr>,
          params = [] \<rparr>,
        \<lparr> PresetLandmark.group = ''rightEye'', vector = \<lparr> x = 0, y = 0.2, z = 0 \<rparr>,
          params = [] \<rparr>,
        \<lparr> PresetLandmark.group = ''lips'', vector = \<lparr> x = 0.3, y = - 0.2, z = 0 \<rparr>,
          params = [] \<rparr> ],
      description = Some ''Cheerful expression'' \<rparr>
  ]"

text \<open>\<^verbatim>\<open>EMOTION_PRESETS\<close> of revision \<^verbatim>\<open>part_000\<close>:\<close>

definition EMOTION_PRESETS_part_000 :: "EmotionPreset list" where
  "EMOTION_PRESETS_part_000 = [
    \<lparr> name = [CHR 0xF0, CHR 0x9F, CHR 0x98, CHR 0xA0] @ '' Angry'',
      landmarks = [
        \<lparr> PresetLandmark.group = ''background'', vector = \<lparr> x = 0, y = 0, z = 0 \<rparr>,
          params = [(rotate_pitch, 10), (rotate_yaw, 0), (rotate_roll, 0)] \<rparr>,
        \<lparr> PresetLandmark.group = ''leftEyebrow'', vector = \<lparr> x = 0, y = 0, z = 0 \<rparr>,
          params = [(eyebrow, - 8)] \<rparr>,
        \<lparr> PresetLandmark.group = ''rightEyebrow'', vector = \<lparr> x = 0, y = 0, z = 0 \<rparr>,
          params = [(eyebrow, - 8)] \<rparr>,
        \<lparr> PresetLandmark.group = ''leftEye'', vector = \<lparr> x = 0, y = 0, z = 0 \<rparr>,
          params = [(eyes, - 10)] \<rparr>,
        \<lparr> PresetLandmark.group = ''rightEye'', vector = \<lparr> x = 0, y = 0, z = 0 \<rparr>,
          params = [(eyes, - 10)] \<rparr>,
        \<lparr> PresetLandmark.group = ''lips'', vector = \<lparr> x = 0, y = 0, z = 0 \<rparr>,
          params = [(aaa, - 20), (eee, - 10)] \<rparr> ],
      description = Some ''Furrowed eyebrows, narrowed eyes, and a tense, downturned mouth'' \<rparr>,
    \<lparr> name = [CHR 0xF0, CHR 0x9F, CHR 0x98, CHR 0xA2] @ '' Sad'',
      landmarks = [
        \<lparr> PresetLandmark.group = ''background'', vector = \<lparr> x = 0, y = 0, z = 0 \<rparr>,
          params = [(rotate_pitch, 15), (rotate_yaw, 0), (rotate_roll, 0)] \<rparr>,
        \<lparr> PresetLandmark.group = ''leftEyebrow'', vector = \<lparr> x = 0, y = 0, z = 0 \<rparr>,
          params = [(eyebrow, 5)] \<rparr>,
        \<lparr> PresetLandmark.group = ''rightEyebrow'', vector = \<lparr> x = 0, y = 0, z = 0 \<rparr>,
          params = [(eyebrow, 5)] \<rparr>,
        \<lparr> PresetLandmark.group = ''leftEye'', vector = \<lparr> x = 0, y = 0, z = 0 \<rparr>,
          params = [(eyes, - 5)] \<rparr>,
        \<lparr> PresetLandmark.group = ''rightEye'', vector = \<lparr> x = 0, y = 0, z = 0 \<rparr>,
          params = [(eyes, - 5)] \<rparr>,
        \<lparr> PresetLandmark.group = ''lips'', vector = \<lparr> x = 0, y = 0, z = 0 \<rparr>,
          params = [(aaa, - 10), (eee, - 5)] \<rparr> ],
      description = Some ''Drooping features with a downturned mouth'' \<rparr>,
    \<lparr> name = [CHR 0xF0, CHR 0x9F, CHR 0x98, CHR 0xAE] @ '' Surprised'',
      landmarks = [
        \<lparr> PresetLandmark.group = ''background'', vector = \<lparr> x = 0, y = 0, z = 0 \<rparr>,
          params = [(rotate_pitch, - 10), (rotate_yaw, 0), (rotate_roll, 0)] \<rparr>,
        \<lparr> PresetLandmark.group = ''leftEyebrow'', vector = \<lparr> x = 0, y = 0, z = 0 \<rparr>,
          params = [(eyebrow, 12)] \<rparr>,
        \<lparr> PresetLandmark.group = ''rightEyebrow'', vector = \<lparr> x = 0, y = 0, z = 0 \<rparr>,
          params = [(eyebrow, 12)] \<rparr>,
        \<lparr> PresetLandmark.group = ''leftEye'', vector = \<lparr> x = 0, y = 0, z = 0 \<rparr>,
          params = [(eyes, 15)] \<rparr>,
        \<lparr> PresetLandmark.group = ''rightEye'', vector = \<lparr> x = 0, y = 0, z = 0 \<rparr>,
          params = [(eyes, 15)] \<rparr>,
        \<lparr> PresetLandmark.group = ''lips'', vector = \<lparr> x = 0, y = 0, z = 0 \<rparr>,
          params = [(aaa, 80), (eee, 0)] \<rparr> ],
      description = Some ''Raised eyebrows, wide open eyes, and an open mouth'' \<rparr>,
    \<lparr> name = [CHR 0xF0, CHR 0x9F, CHR 0x98, CHR 0xA8] @ '' Scared'',
      landmarks = [
        \<lparr> PresetLandmark.group = ''background'', vector = \<lparr> x = 0, y = 0, z = 0 \<rparr>,
          params = [(rotate_pitch, - 15), (rotate_yaw, 5), (rotate_roll, 0)] \<rparr>,
        \<lparr> PresetLandmark.group = ''leftEyebrow'', vector = \<lparr> x = 0, y = 0, z = 0 \<rparr>,
          params = [(eyebrow, 10)] \<rparr>,
        \<lparr> PresetLandmark.group = ''rightEyebrow'', vector = \<lparr> x = 0, y = 0, z = 0 \<rparr>,
          params = [(eyebrow, 10)] \<rparr>,
        \<lparr> PresetLandmark.group = ''leftEye'', vector = \<lparr> x = 0, y = 0, z = 0 \<rparr>,
          params = [(eyes, 12), (pupil_x, 5), (pupil_y, 5)] \<rparr>,
        \<lparr> PresetLandmark.group = ''rightEye'', vector = \<lparr> x = 0, y = 0, z = 0 \<rparr>,
          params = [(eyes, 12), (pupil_x, 5), (pupil_y, 5)] \<rparr>,
        \<lparr> PresetLandmark.group = ''lips'', vector = \<lparr> x = 0, y = 0, z = 0 \<rparr>,
          params = [(aaa, 30), (eee, - 5)] \<rparr> ],
      description = Some ''Wide eyes, raised eyebrows, and a tense mouth conveying fear'' \<rparr>,
    \<lparr> name = [CHR 0xF0, CHR 0x9F, CHR 0xA4, CHR 0x94] @ '' Thinking'',
      landmarks = [
        \<lparr> PresetLandmark.group = ''background'', vector = \<lparr> x = 0.038, y = - 0.038, z = 0 \<rparr>,
          params = [(rotate_pitch, - 18.60), (rotate_yaw, - 25.15), (rotate_roll, 0)] \<rparr>,
        \<lparr> PresetLandmark.group = ''leftEyebrow'', vector = \<lparr> x = 0.12, y = - 0.42, z = 0 \<rparr>,
          params = [(eyebrow, 13.03)] \<rparr>,
        \<lparr> PresetLandmark.group = ''lips'', vector = \<lparr> x = - 0.09, y = 0.31, z = 0 \<rparr>,
          params = [(aaa, - 1.52), (eee, - 5.89)] \<rparr> ],
      description = Some ''A contemplative look with a subtle head tilt and smirk'' \<rparr>,
    \<lparr> name = [CHR 0xF0, CHR 0x9F, CHR 0x98, CHR 0x8A] @ '' Happy'',
      landmarks = [
        \<lparr> PresetLandmark.group = ''background'', vector = \<lparr> x = 0.038, y = - 0.038, z = 0 \<rparr>,
          params = [(rotate_pitch, - 3), (rotate_yaw, - 5), (rotate_roll, 0)] \<rparr>,
        \<lparr> PresetLandmark.group = ''leftEyebrow'', vector = \<lparr> x = 0.54, y = - 0.45, z = 0 \<rparr>,
          params = [(eyebrow, 13)] \<rparr>,
        \<lparr> PresetLandmark.group = ''rightEyebrow'', vector = \<lparr> x = 0.54, y = - 0.45, z = 0 \<rparr>,
          params = [(eyebrow, 13)] \<rparr>,
        \<lparr> PresetLandmark.group = ''leftEye'', vector = \<lparr> x = 0.045, y = - 0.39, z = 0 \<rparr>,
          params = [(eyes, 2.5)] \<rparr>,
        \<lparr> PresetLandmark.group = ''lips'', vector = \<lparr> x = 0.41, y = 0.21, z = 0 \<rparr>,
          params = [(aaa, 13), (eee, 12)] \<rparr> ],
      description = Some ''A broad smile with relaxed, cheerful features'' \<rparr>
  ]"

text \<open>\<^verbatim>\<open>EMOTION_PRESETS\<close> of revision \<^verbatim>\<open>part_001\<close> (it has no Scared preset):\<close>

definition EMOTION_PRESETS_part_001 :: "EmotionPreset list" where
  "EMOTION_PRESETS_part_001 = [
    \<lparr> name = [CHR 0xF0, CHR 0x9F, CHR 0x98, CHR 0xA0] @ '' Angry'',
      landmarks = [
        \<lparr> PresetLandmark.group = ''background'', vector = \<lparr> x = 0.12, y = - 0.04, z = 0 \<rparr>,
          params = [] \<rparr>,
        \<lparr> PresetLandmark.group = ''leftEyebrow'', vector = \<lparr> x = 0.05, y = 0.15, z = 0 \<rparr>,
          params = [(eyebrow, - 1.29)] \<rparr>,
        \<lparr> PresetLandmark.group = ''leftEye'', vector = \<lparr> x = 0.18, y = - 0.25, z = 0 \<rparr>,
          params = [(eyes, - 1.08), (pupil_x, 5.5), (pupil_y, 0)] \<rparr>,
        \<lparr> PresetLandmark.group = ''lips'', vector = \<lparr> x = - 0.38, y = 0.36, z = 0 \<rparr>,
          params = [(aaa, - 10.08), (eee, - 16.02)] \<rparr> ],
      description = Some ''Furrowed eyebrows, narrowed eyes, and a tense, downturned mouth'' \<rparr>,
    \<lparr> name = [CHR 0xF0, CHR 0x9F, CHR 0x98, CHR 0xA2] @ '' Sad'',
      landmarks = [
        \<lparr> PresetLandmark.group = ''background'', vector = \<lparr> x = - 0.11, y = 0.12, z = 0 \<rparr>,
          params = [] \<rparr>,
        \<lparr> PresetLandmark.group = ''leftEyebrow'', vector = \<lparr> x = 0.01, y = 0.16, z = 0 \<rparr>,
          params = [(eyebrow, - 1.68)] \<rparr>,
        \<lparr> PresetLandmark.group = ''leftEye'', vector = \<lparr> x = - 0.2334098950897014, y = 0.11482211814970011, z = 0 \<rparr>,
          params = [(eyes, - 10), (pupil_x, - 7)] \<rparr>,
        \<lparr> PresetLandmark.group = ''lips'', vector = \<lparr> x = 0, y = 0.47, z = 0 \<rparr>,
          params = [(aaa, - 26), (eee, - 2)] \<rparr> ],
      description = Some ''Drooping features with a downturned mouth'' \<rparr>,
    \<lparr> name = [CHR 0xF0, CHR 0x9F, CHR 0x98, CHR 0xAE] @ '' Surprised'',
      landmarks = [
        \<lparr> PresetLandmark.group = ''background'', vector = \<lparr> x = - 0.03, y = 0.06, z = 0 \<rparr>,
          params = [] \<rparr>,
        \<lparr> PresetLandmark.group = ''leftEyebrow'', vector = \<lparr> x = 0.05, y = - 0.48, z = 0 \<rparr>,
          params = [(eyebrow, 14.70)] \<rparr>,
        \<lparr> PresetLandmark.group = ''leftEye'', vector = \<lparr> x = 0.01, y = - 0.43, z = 0 \<rparr>,
          params = [(eyes, 3.5), (pupil_x, 0.56), (pupil_y, 0)] \<rparr>,
        \<lparr> PresetLandmark.group = ''lips'', vector = \<lparr> x = 0.02, y = - 0.41, z = 0 \<rparr>,
          params = [(aaa, 107), (eee, - 1.76)] \<rparr> ],
      description = Some ''Raised eyebrows, wide open eyes, and an open mouth'' \<rparr>,
    \<lparr> name = [CHR 0xF0, CHR 0x9F, CHR 0xA4, CHR 0x94] @ '' Thinking'',
      landmarks = [
        \<lparr> PresetLandmark.group = ''background'', vector = \<lparr> x = 0.5, y = - 0.3, z = 0 \<rparr>,
          params = [] \<rparr>,
        \<lparr> PresetLandmark.group = ''leftEyebrow'', vector = \<lparr> x = 0.12, y = - 0.42, z = 0 \<rparr>,
          params = [(eyebrow, 13.03)] \<rparr>,
        \<lparr> PresetLandmark.group = ''lips'', vector = \<lparr> x = - 0.09, y = 0.31, z = 0 \<rparr>,
          params = [(aaa, - 1.52), (eee, - 5.89)] \<rparr> ],
      description = Some ''A contemplative look with a subtle head tilt and smirk'' \<rparr>,
    \<lparr> name = [CHR 0xF0, CHR 0x9F, CHR 0x98, CHR 0x8A] @ '' Happy'',
      landmarks = [
        \<lparr> PresetLandmark.group = ''background'', vector = \<lparr> x = 0.1, y = - 0.1, z = 0 \<rparr>,
          params = [] \<rparr>,
        \<lparr> PresetLandmark.group = ''leftEyebrow'', vector = \<lparr> x = 0.54, y = - 0.45, z = 0 \<rparr>,
          params = [(eyebrow, 13)] \<rparr>,
        \<lparr> PresetLandmark.group = ''rightEyebrow'', vector = \<lparr> x = 0.54, y = - 0.45, z = 0 \<rparr>,
          params = [(eyebrow, 13)] \<rparr>,
        \<lparr> PresetLandmark.group = ''leftEye'', vector = \<lparr> x = 0.045, y = - 0.39, z = 0 \<rparr>,
          params = [(eyes, 2.5)] \<rparr>,
        \<lparr> PresetLandmark.group = ''lips'', vector = \<lparr> x = 0.41, y = 0.21, z = 0 \<rparr>,
          params = [(aaa, 13), (eee, 12)] \<rparr> ],
      description = Some ''A broad smile with relaxed, cheerful features'' \<rparr>
  ]"

section \<open>The click handler\<close>

text \<open>
  \<^verbatim>\<open>Array.prototype.forEach\<close>: the callback runs once per element, first to last, each
  call acting on the state the previous one left.
\<close>

fun forEach :: "('a \<Rightarrow> 's \<Rightarrow> 's) \<Rightarrow> 'a list \<Rightarrow> 's \<Rightarrow> 's" where
  "forEach f [] s = s"
| "forEach f (a # as) s = forEach f as (f a s)"

text \<open>
  The object literal passed to \<^verbatim>\<open>modifyImage\<close> in \<^verbatim>\<open>EmotionPresets.tsx\<close> (lines 102-110):
  the callback destructures \<^verbatim>\<open>{ group, vector }\<close> only and the landmark it sends has the
  three members \<^verbatim>\<open>group\<close>, \<^verbatim>\<open>distance\<close>, \<^verbatim>\<open>vector\<close>.
\<close>

definition imageModification_tsx :: "PresetLandmark \<Rightarrow> ImageModification" where
  "imageModification_tsx l =
     (let group = PresetLandmark.group l; vector = PresetLandmark.vector l in
      \<lparr> landmark =
          \<lparr> group = group,
            distance = sqrt (x vector * x vector + y vector * y vector),
            vector = vector,
            params = [] \<rparr>,
        vector = vector,
        mode = ''PRIMARY'' \<rparr>)"

text \<open>
  The same literal in revisions \<^verbatim>\<open>part_000\<close> (lines 405-415) and \<^verbatim>\<open>part_001\<close>
  (lines 201-211): \<^verbatim>\<open>const { group, vector, ...params } = landmark\<close>, and \<^verbatim>\<open>...params\<close>
  is spread into the landmark that is sent.
\<close>

definition imageModification :: "PresetLandmark \<Rightarrow> ImageModification" where
  "imageModification l =
     (let group = PresetLandmark.group l; vector = PresetLandmark.vector l;
          params = PresetLandmark.params l in
      \<lparr> landmark =
          \<lparr> group = group,
            distance = sqrt (x vector * x vector + y vector * y vector),
            vector = vector,
            params = params \<rparr>,
        vector = vector,
        mode = ''PRIMARY'' \<rparr>)"

text \<open>
  The \<^verbatim>\<open>onClick\<close> arrow function of a preset's button. \<^verbatim>\<open>modifyImage\<close> comes from
  \<^verbatim>\<open>useMainStore\<close>, which is not among the source files: it is a parameter, an
  action on some state \<open>'s\<close>. The handler neither awaits nor inspects what a call
  returns.
\<close>

definition onClick_tsx ::
  "(ImageModification \<Rightarrow> 's \<Rightarrow> 's) \<Rightarrow> EmotionPreset \<Rightarrow> 's \<Rightarrow> 's" where
  "onClick_tsx modifyImage emotion =
     forEach (\<lambda>l. modifyImage (imageModification_tsx l)) (landmarks emotion)"

definition onClick ::
  "(ImageModification \<Rightarrow> 's \<Rightarrow> 's) \<Rightarrow> EmotionPreset \<Rightarrow> 's \<Rightarrow> 's" where
  "onClick modifyImage emotion =
     forEach (\<lambda>l. modifyImage (imageModification l)) (landmarks emotion)"

text \<open>
  A \<^verbatim>\<open>modifyImage\<close> that only records its argument: the state is the list of calls
  made so far, oldest first.
\<close>

definition recordCall :: "ImageModification \<Rightarrow> ImageModification list \<Rightarrow> ImageModification list" where
  "recordCall m calls = calls @ [m]"

section \<open>The component\<close>

text \<open>
  What the component takes from \<^verbatim>\<open>useMainStore\<close>: the selected \<^verbatim>\<open>previewImage\<close> and the
  action \<^verbatim>\<open>modifyImage\<close>. The hook is not among the source files, so the store is a
  parameter of the component. \<^verbatim>\<open>previewImage\<close> is only tested for truthiness; it is an
  optional string (\<open>None\<close> for \<^verbatim>\<open>null\<close> or \<^verbatim>\<open>undefined\<close>). An action is a function on the
  state \<open>'s\<close> of whatever the store drives.
\<close>

record 's MainStore =
  previewImage :: "string option"
  modifyImage :: "ImageModification \<Rightarrow> 's \<Rightarrow> 's"

text \<open>JavaScript truthiness of \<^verbatim>\<open>previewImage\<close>: \<^verbatim>\<open>null\<close>, \<^verbatim>\<open>undefined\<close> and \<^verbatim>\<open>''\<close> are falsy.\<close>

definition truthy :: "string option \<Rightarrow> bool" where
  "truthy v = (case v of None \<Rightarrow> False | Some str \<Rightarrow> str \<noteq> [])"

text \<open>
  \<^verbatim>\<open>EmotionPresets()\<close>: \<^verbatim>\<open>null\<close> (here \<open>None\<close>) when \<^verbatim>\<open>previewImage\<close> is falsy, otherwise one
  button per element of \<^verbatim>\<open>EMOTION_PRESETS\<close>, in table order. The enclosing \<^verbatim>\<open><div>\<close>s and
  the heading carry no handler; the rendered tree is represented by its buttons.
  The three revisions differ in their table and in the handler only.
\<close>

definition EmotionPresets_tsx :: "'s MainStore \<Rightarrow> 's Button list option" where
  "EmotionPresets_tsx store =
     (let modifyImage = MainStore.modifyImage store;
          previewImage = MainStore.previewImage store in
      if \<not> truthy previewImage then None
      else Some (map (\<lambda>emotion.
             \<lparr> key = name emotion,
               Button.onClick = onClick_tsx modifyImage emotion,
               title = description emotion,
               children = name emotion \<rparr>) EMOTION_PRESETS_tsx))"

definition EmotionPresets_part_000 :: "'s MainStore \<Rightarrow> 's Button list option" where
  "EmotionPresets_part_000 store =
     (let modifyImage = MainStore.modifyImage store;
          previewImage = MainStore.previewImage store in
      if \<not> truthy previewImage then None
      else Some (map (\<lambda>emotion.
             \<lparr> key = name emotion,
               Button.onClick = onClick modifyImage emotion,
               title = description emotion,
               children = name emotion \<rparr>) EMOTION_PRESETS_part_000))"

definition EmotionPresets_part_001 :: "'s MainStore \<Rightarrow> 's Button list option" where
  "EmotionPresets_part_001 store =
     (let modifyImage = MainStore.modifyImage store;
          previewImage = MainStore.previewImage store in
      if \<not> truthy previewImage then None
      else Some (map (\<lambda>emotion.
             \<lparr> key = name emotion,
               Button.onClick = onClick modifyImage emotion,
               title = description emotion,
               children = name emotion \<rparr>) EMOTION_PRESETS_part_001))"

text \<open>
  The user's side of the component: a click on the \<open>i\<close>-th rendered button runs that
  button's handler. When nothing is rendered, or there is no such button, there is
  nothing to click and the state stays as it is.
\<close>

definition click :: "'s Button list option \<Rightarrow> nat \<Rightarrow> 's \<Rightarrow> 's" where
  "click rendered i s =
     (case rendered of
        None \<Rightarrow> s
      | Some buttons \<Rightarrow> if i < length buttons then Button.onClick (buttons ! i) s else s)"

section \<open>The parts outside the source files\<close>

text \<open>
  The store behind \<^verbatim>\<open>useMainStore\<close> (composition of edits, dispatch to the backend, the
  preview, reset), the landmark catalog and the path that turns a pointer drag into an
  edit are not among the source files. Each definition of this section follows the
  specification's description of the missing part and says so.
\<close>

text \<open>Modelled from the spec: the Edit of section 3, missing as a declaration. Its members
  are \<^verbatim>\<open>group\<close>, \<^verbatim>\<open>vector\<close>, \<^verbatim>\<open>distance\<close> and \<^verbatim>\<open>params\<close>: it is the landmark object the
  handler sends.\<close>

type_synonym Edit = ClosestLandmark

text \<open>Modelled from the spec: ExpressionState (section 3), missing from the source
  files: a mapping from landmark group to the edit last applied to it.\<close>

type_synonym ExpressionState = "LandmarkGroup \<rightharpoonup> Edit"

text \<open>Modelled from the spec: the error taxonomy of section 7, missing from the source
  files. \<open>UnsupportedParameter\<close> is never returned: the parameter is dropped
  silently.\<close>

datatype error = UnknownLandmarkGroup | UnsupportedParameter | DispatchFailed

text \<open>Modelled from the spec: the Landmark Catalog (section 4.1), missing from the
  source files. The table itself is a parameter: one row per registered region, with
  the parameter names the region accepts.\<close>

type_synonym Catalog = "(LandmarkGroup \<times> ParamName list) list"

text \<open>Modelled from the spec: \<^verbatim>\<open>regionsFor\<close> of the Landmark Catalog (section 4.1), missing
  from the source files.\<close>

definition regionsFor :: "Catalog \<Rightarrow> LandmarkGroup set" where
  "regionsFor cat = set (map fst cat)"

text \<open>Modelled from the spec: \<^verbatim>\<open>paramsAccepted\<close> of the Landmark Catalog (section 4.1),
  missing from the source files. A pure lookup that fails only on a group without a
  row.\<close>

definition paramsAccepted :: "Catalog \<Rightarrow> LandmarkGroup \<Rightarrow> error + ParamName set" where
  "paramsAccepted cat g =
     (case map_of cat g of
        None \<Rightarrow> Inl UnknownLandmarkGroup
      | Some names \<Rightarrow> Inr (set names))"

text \<open>
  The specification's formula for the derived magnitude of an edit (section 3):
  \<^verbatim>\<open>sqrt(x\<^sup>2 + y\<^sup>2)\<close> of its vector, the \<^verbatim>\<open>z\<close> component left out. It is what the
  distances computed by the handlers are compared with.
\<close>

definition planarMagnitude :: "Vector3 \<Rightarrow> number" where
  "planarMagnitude v = sqrt ((x v)\<^sup>2 + (y v)\<^sup>2)"

text \<open>Modelled from the spec: the Edit Normalizer for a raw manual interaction (section
  4.2), missing from the source files. An unknown group fails; a parameter the group
  does not accept is dropped; numeric values are passed through; the distance is
  computed from the vector. Section 4.2 gives the same rules for a preset's declared
  edit as raw input.\<close>

definition normalizeEdit ::
  "Catalog \<Rightarrow> LandmarkGroup \<Rightarrow> Vector3 \<Rightarrow> (ParamName \<times> number) list \<Rightarrow> error + Edit" where
  "normalizeEdit cat g v ps =
     (case paramsAccepted cat g of
        Inl err \<Rightarrow> Inl err
      | Inr acc \<Rightarrow>
          Inr \<lparr> group = g,
                distance = sqrt ((x v)\<^sup>2 + (y v)\<^sup>2),
                vector = v,
                params = filter (\<lambda>kv. fst kv \<in> acc) ps \<rparr>)"

text \<open>
  The specification's rule for parameters (section 4.2), as a property of an edit: its
  group is registered and every parameter key it carries is accepted by its group in
  the catalog.
\<close>

definition paramsWithinCatalog :: "Catalog \<Rightarrow> Edit \<Rightarrow> bool" where
  "paramsWithinCatalog cat e =
     (case paramsAccepted cat (ClosestLandmark.group e) of
        Inl err \<Rightarrow> False
      | Inr acc \<Rightarrow> fst ` set (ClosestLandmark.params e) \<subseteq> acc)"

text \<open>Modelled from the spec: single-edit apply of the Composition Engine (section 4.3),
  missing from the source files. Under \<^verbatim>\<open>PRIMARY\<close> the edit replaces the entry of its
  group. The specification defines no other mode; what a future mode does is the
  parameter \<open>futureModes\<close>.\<close>

definition singleEditApply ::
  "(ActionMode \<Rightarrow> Edit \<Rightarrow> ExpressionState \<Rightarrow> ExpressionState) \<Rightarrow>
     ActionMode \<Rightarrow> Edit \<Rightarrow> ExpressionState \<Rightarrow> ExpressionState" where
  "singleEditApply futureModes md e st =
     (if md = ''PRIMARY'' then st(ClosestLandmark.group e \<mapsto> e) else futureModes md e st)"

text \<open>Modelled from the spec: Preview State (section 4.5), missing from the source
  files. References to images are opaque: the type \<open>'r\<close>.\<close>

record 'r PreviewState =
  originalPhoto :: 'r
  renderedArtifact :: "'r option"

text \<open>Modelled from the spec: what goes out to the animation backend (sections 4.3, 4.4
  and 6), missing from the source files: one message per edit, holding the edit's
  group, vector, distance and params, and the signal to restore the original photo.\<close>

datatype Outbound = EditMessage Edit | RestoreOriginal

text \<open>Modelled from the spec: the editing session (section 3), missing from the source
  files. It owns one ExpressionState and one Preview State; it also keeps what it sent
  to the backend (\<open>outbound\<close>, oldest first) and what it reported to its caller for
  every dispatch (\<open>reports\<close>, oldest first).\<close>

record 'r Session =
  expressionState :: ExpressionState
  previewState :: "'r PreviewState"
  outbound :: "Outbound list"
  reports :: "(error + 'r) list"

text \<open>Modelled from the spec: the session created when a photo is loaded, missing from
  the source files (section 3: ExpressionState is created empty; section 4.5: there
  is no rendered artifact yet).\<close>

definition newSession :: "'r \<Rightarrow> 'r Session" where
  "newSession photo =
     \<lparr> expressionState = Map.empty,
       previewState = \<lparr> originalPhoto = photo, renderedArtifact = None \<rparr>,
       outbound = [],
       reports = [] \<rparr>"

text \<open>Modelled from the spec: the store action \<^verbatim>\<open>modifyImage\<close> of \<^verbatim>\<open>useMainStore\<close>, missing
  from the source files (sections 4.3, 4.4 and 7). The edit is merged into
  ExpressionState first; then one message for this edit goes to the backend. The backend
  is a parameter: given what the session has sent before and the edit, it answers with a
  rendered image or not at all (\<open>None\<close>: rejected, unreachable or timed out). A failure
  is reported as \<open>DispatchFailed\<close> and leaves the merged ExpressionState and the Preview
  State as they are; a success stores the rendered image in Preview State. Dispatches
  are taken one at a time, in the order of the calls (the queueing policy of section
  4.4).\<close>

definition modifyImage_spec ::
  "(ActionMode \<Rightarrow> Edit \<Rightarrow> ExpressionState \<Rightarrow> ExpressionState) \<Rightarrow>
     (Outbound list \<Rightarrow> Edit \<Rightarrow> 'r option) \<Rightarrow> ImageModification \<Rightarrow> 'r Session \<Rightarrow> 'r Session" where
  "modifyImage_spec futureModes backend m s =
     (let e = landmark m;
          merged = s\<lparr> expressionState := singleEditApply futureModes (mode m) e (expressionState s) \<rparr>;
          dispatched = merged\<lparr> outbound := outbound merged @ [EditMessage e] \<rparr>
      in case backend (outbound s) e of
           None \<Rightarrow> dispatched\<lparr> reports := reports dispatched @ [Inl DispatchFailed] \<rparr>
         | Some artifact \<Rightarrow>
             dispatched\<lparr> previewState := (previewState dispatched)\<lparr> renderedArtifact := Some artifact \<rparr>,
                         reports := reports dispatched @ [Inr artifact] \<rparr>)"

text \<open>Modelled from the spec: \<^verbatim>\<open>resetSession\<close> (sections 4.3, 6 and 8), missing from the
  source files. ExpressionState is discarded, the rendered artifact is cleared, and
  the backend is told to restore the original photo.\<close>

definition resetSession :: "'r Session \<Rightarrow> 'r Session" where
  "resetSession s =
     s\<lparr> expressionState := Map.empty,
        previewState := (previewState s)\<lparr> renderedArtifact := None \<rparr>,
        outbound := outbound s @ [RestoreOriginal] \<rparr>"

section \<open>Preset activation against the modelled store\<close>

text \<open>
  The handlers of the source, with the modelled \<^verbatim>\<open>modifyImage\<close> as their store action.
\<close>

definition activatePreset_tsx ::
  "(ActionMode \<Rightarrow> Edit \<Rightarrow> ExpressionState \<Rightarrow> ExpressionState) \<Rightarrow>
     (Outbound list \<Rightarrow> Edit \<Rightarrow> 'r option) \<Rightarrow> EmotionPreset \<Rightarrow> 'r Session \<Rightarrow> 'r Session" where
  "activatePreset_tsx futureModes backend emotion =
     onClick_tsx (modifyImage_spec futureModes backend) emotion"

definition activatePreset ::
  "(ActionMode \<Rightarrow> Edit \<Rightarrow> ExpressionState \<Rightarrow> ExpressionState) \<Rightarrow>
     (Outbound list \<Rightarrow> Edit \<Rightarrow> 'r option) \<Rightarrow> EmotionPreset \<Rightarrow> 'r Session \<Rightarrow> 'r Session" where
  "activatePreset futureModes backend emotion =
     onClick (modifyImage_spec futureModes backend) emotion"

text \<open>
  The preset cut down to its first \<open>k\<close> declared edits. Activating it gives the state the
  handler's loop is in after \<open>k\<close> iterations: by \<open>forEach_append\<close> below, the loop over
  the whole array is the loop over the remaining elements started from there.
\<close>

definition firstEdits :: "nat \<Rightarrow> EmotionPreset \<Rightarrow> EmotionPreset" where
  "firstEdits k emotion = emotion\<lparr> landmarks := take k (landmarks emotion) \<rparr>"

text \<open>
  The catalog that the three preset tables follow: every group they use, with the
  parameters that the landmarks of that group declare in them (\<^verbatim>\<open>faceOval\<close> is used
  without parameters).
\<close>

definition shippedCatalog :: Catalog where
  "shippedCatalog =
     [ (''background'', [rotate_pitch, rotate_yaw, rotate_roll]),
       (''leftEyebrow'', [eyebrow]),
       (''rightEyebrow'', [eyebrow]),
       (''leftEye'', [eyes, pupil_x, pupil_y]),
       (''rightEye'', [eyes, pupil_x, pupil_y]),
       (''lips'', [aaa, eee]),
       (''faceOval'', []) ]"

text \<open>A backend for examples: it answers every dispatch except the second one.\<close>

definition secondDispatchFails :: "Outbound list \<Rightarrow> Edit \<Rightarrow> string option" where
  "secondDispatchFails sent e = (if length sent = 1 then None else Some ''frame'')"

section \<open>Properties of the handler\<close>

lemma forEach_recordCall:
  "forEach (\<lambda>l. recordCall (f l)) ls calls = calls @ map f ls"
  by (induction ls arbitrary: calls) (simp_all add: recordCall_def)

lemma forEach_fold:
  "forEach (\<lambda>l. g (f l)) ls s = fold g (map f ls) s"
  by (induction ls arbitrary: s) simp_all

lemma forEach_append:
  "forEach f (as @ bs) s = forEach f bs (forEach f as s)"
  by (induction as arbitrary: s) simp_all

lemma onClick_recordCall:
  "onClick recordCall emotion calls = calls @ map imageModification (landmarks emotion)"
  by (simp add: onClick_def forEach_recordCall)

lemma onClick_tsx_recordCall:
  "onClick_tsx recordCall emotion calls = calls @ map imageModification_tsx (landmarks emotion)"
  by (simp add: onClick_tsx_def forEach_recordCall)

lemma imageModification_sel:
  "mode (imageModification l) = ''PRIMARY''"
  "ImageModification.vector (imageModification l) = PresetLandmark.vector l"
  "ClosestLandmark.vector (landmark (imageModification l)) = PresetLandmark.vector l"
  "ClosestLandmark.group (landmark (imageModification l)) = PresetLandmark.group l"
  "ClosestLandmark.params (landmark (imageModification l)) = PresetLandmark.params l"
  "distance (landmark (imageModification l))
     = sqrt (x (PresetLandmark.vector l) * x (PresetLandmark.vector l)
           + y (PresetLandmark.vector l) * y (PresetLandmark.vector l))"
  by (simp_all add: imageModification_def Let_def)

lemma imageModification_tsx_sel:
  "mode (imageModification_tsx l) = ''PRIMARY''"
  "ImageModification.vector (imageModification_tsx l) = PresetLandmark.vector l"
  "ClosestLandmark.vector (landmark (imageModification_tsx l)) = PresetLandmark.vector l"
  "ClosestLandmark.group (landmark (imageModification_tsx l)) = PresetLandmark.group l"
  "ClosestLandmark.params (landmark (imageModification_tsx l)) = []"
  "distance (landmark (imageModification_tsx l))
     = sqrt (x (PresetLandmark.vector l) * x (PresetLandmark.vector l)
           + y (PresetLandmark.vector l) * y (PresetLandmark.vector l))"
  by (simp_all add: imageModification_tsx_def Let_def)

text \<open>
  On a landmark without optional members the two revisions of the handler send the same
  message.
\<close>

lemma imageModification_tsx_agrees:
  "PresetLandmark.params l = [] \<Longrightarrow> imageModification_tsx l = imageModification l"
  by (simp add: imageModification_def imageModification_tsx_def)

lemma modes_imageModification:
  "map (\<lambda>l. mode (imageModification l)) ls = replicate (length ls) ''PRIMARY''"
  "map (\<lambda>l. mode (imageModification_tsx l)) ls = replicate (length ls) ''PRIMARY''"
  by (induction ls) (simp_all add: imageModification_sel imageModification_tsx_sel)

text \<open>The tables as the handlers see them: how many edits each preset declares.\<close>

lemma declared_edit_counts:
  "map (\<lambda>p. length (onClick_tsx recordCall p [])) EMOTION_PRESETS_tsx = [6, 4, 6, 6, 3, 6]"
  "map (\<lambda>p. length (onClick recordCall p [])) EMOTION_PRESETS_part_000 = [6, 6, 6, 6, 3, 5]"
  "map (\<lambda>p. length (onClick recordCall p [])) EMOTION_PRESETS_part_001 = [4, 4, 4, 3, 5]"
  by (simp_all add: onClick_recordCall onClick_tsx_recordCall EMOTION_PRESETS_tsx_def
        EMOTION_PRESETS_part_000_def EMOTION_PRESETS_part_001_def)

text \<open>
  C3. Activating a preset whose \<^verbatim>\<open>landmarks\<close> array declares N edits makes exactly N calls
  of \<^verbatim>\<open>modifyImage\<close>, the i-th with the message built from the i-th declared landmark:
  the recorded calls are the declared array mapped element by element, in array order,
  in every revision of the handler; and whatever \<^verbatim>\<open>modifyImage\<close> is, the handler runs it
  on exactly these messages one after the other.
\<close>

theorem preset_dispatches_in_declared_order:
  "onClick recordCall emotion [] = map imageModification (landmarks emotion)
   \<and> length (onClick recordCall emotion []) = length (landmarks emotion)
   \<and> onClick_tsx recordCall emotion [] = map imageModification_tsx (landmarks emotion)
   \<and> length (onClick_tsx recordCall emotion []) = length (landmarks emotion)
   \<and> onClick act emotion s = fold act (map imageModification (landmarks emotion)) s
   \<and> onClick_tsx act emotion s = fold act (map imageModification_tsx (landmarks emotion)) s"
proof -
  have "onClick act emotion s = fold act (map imageModification (landmarks emotion)) s"
    by (simp add: onClick_def forEach_fold)
  moreover have "onClick_tsx act emotion s = fold act (map imageModification_tsx (landmarks emotion)) s"
    by (simp add: onClick_tsx_def forEach_fold)
  ultimately show ?thesis
    by (simp add: onClick_recordCall onClick_tsx_recordCall)
qed

text \<open>
  C8. Every message produced by activating a preset carries the mode \<^verbatim>\<open>PRIMARY\<close>: in every
  revision of the handler and for every preset, and so for whatever button of the
  rendered component is clicked, in each of the three revisions with its own table.
\<close>

theorem preset_mode_always_PRIMARY:
  "map mode (onClick recordCall emotion []) = replicate (length (landmarks emotion)) ''PRIMARY''
   \<and> map mode (onClick_tsx recordCall emotion []) = replicate (length (landmarks emotion)) ''PRIMARY''
   \<and> map mode (click (EmotionPresets_tsx \<lparr> previewImage = img, modifyImage = recordCall \<rparr>) i [])
       = replicate (length (click (EmotionPresets_tsx \<lparr> previewImage = img, modifyImage = recordCall \<rparr>) i []))
           ''PRIMARY''
   \<and> map mode (click (EmotionPresets_part_000 \<lparr> previewImage = img, modifyImage = recordCall \<rparr>) i [])
       = replicate (length (click (EmotionPresets_part_000 \<lparr> previewImage = img, modifyImage = recordCall \<rparr>) i []))
           ''PRIMARY''
   \<and> map mode (click (EmotionPresets_part_001 \<lparr> previewImage = img, modifyImage = recordCall \<rparr>) i [])
       = replicate (length (click (EmotionPresets_part_001 \<lparr> previewImage = img, modifyImage = recordCall \<rparr>) i []))
           ''PRIMARY''"
proof -
  have handlers:
    "map mode (onClick recordCall e []) = replicate (length (onClick recordCall e [])) ''PRIMARY''"
    "map mode (onClick_tsx recordCall e []) = replicate (length (onClick_tsx recordCall e [])) ''PRIMARY''"
    for e
    by (simp_all add: onClick_recordCall onClick_tsx_recordCall comp_def modes_imageModification)
  have "map mode (click (EmotionPresets_tsx \<lparr> previewImage = img, modifyImage = recordCall \<rparr>) i [])
       = replicate (length (click (EmotionPresets_tsx \<lparr> previewImage = img, modifyImage = recordCall \<rparr>) i []))
           ''PRIMARY''"
    by (simp add: EmotionPresets_tsx_def click_def handlers)
  moreover
  have "map mode (click (EmotionPresets_part_000 \<lparr> previewImage = img, modifyImage = recordCall \<rparr>) i [])
       = replicate (length (click (EmotionPresets_part_000 \<lparr> previewImage = img, modifyImage = recordCall \<rparr>) i []))
           ''PRIMARY''"
    by (simp add: EmotionPresets_part_000_def click_def handlers)
  moreover
  have "map mode (click (EmotionPresets_part_001 \<lparr> previewImage = img, modifyImage = recordCall \<rparr>) i [])
       = replicate (length (click (EmotionPresets_part_001 \<lparr> previewImage = img, modifyImage = recordCall \<rparr>) i []))
           ''PRIMARY''"
    by (simp add: EmotionPresets_part_001_def click_def handlers)
  ultimately show ?thesis
    by (simp add: onClick_recordCall onClick_tsx_recordCall comp_def modes_imageModification)
qed

text \<open>
  C10. Every message produced by activating a preset holds the displacement vector
  twice, as \<^verbatim>\<open>landmark.vector\<close> and as the top-level \<^verbatim>\<open>vector\<close>, and both are the vector
  the preset declares.
\<close>

theorem preset_vector_sent_twice:
  "map (\<lambda>m. ClosestLandmark.vector (landmark m)) (onClick recordCall emotion [])
     = map ImageModification.vector (onClick recordCall emotion [])
   \<and> map ImageModification.vector (onClick recordCall emotion [])
     = map PresetLandmark.vector (landmarks emotion)
   \<and> map (\<lambda>m. ClosestLandmark.vector (landmark m)) (onClick_tsx recordCall emotion [])
     = map ImageModification.vector (onClick_tsx recordCall emotion [])
   \<and> map ImageModification.vector (onClick_tsx recordCall emotion [])
     = map PresetLandmark.vector (landmarks emotion)"
  by (simp add: onClick_recordCall onClick_tsx_recordCall comp_def
        imageModification_sel imageModification_tsx_sel)

text \<open>
  C2. The distance of every edit that is produced is \<^verbatim>\<open>sqrt(x\<^sup>2 + y\<^sup>2)\<close> of that edit's own
  vector: for every message of a preset activation, in every revision of the handler,
  and for every edit the normalizer of manual interactions returns. Changing the \<^verbatim>\<open>z\<close>
  component of a declared vector changes no distance. A preset landmark has no distance
  member of its own, so the distance cannot be supplied apart from the vector.
\<close>

theorem distance_is_planar_magnitude:
  "map (\<lambda>m. distance (landmark m)) (onClick recordCall emotion [])
     = map (\<lambda>m. planarMagnitude (ClosestLandmark.vector (landmark m))) (onClick recordCall emotion [])
   \<and> map (\<lambda>m. distance (landmark m)) (onClick_tsx recordCall emotion [])
     = map (\<lambda>m. planarMagnitude (ClosestLandmark.vector (landmark m))) (onClick_tsx recordCall emotion [])
   \<and> distance (landmark (imageModification (l\<lparr> PresetLandmark.vector := (PresetLandmark.vector l)\<lparr> z := c \<rparr> \<rparr>)))
     = distance (landmark (imageModification l))
   \<and> distance (landmark (imageModification_tsx (l\<lparr> PresetLandmark.vector := (PresetLandmark.vector l)\<lparr> z := c \<rparr> \<rparr>)))
     = distance (landmark (imageModification_tsx l))
   \<and> (case normalizeEdit cat g v ps of
         Inl err \<Rightarrow> err = UnknownLandmarkGroup
       | Inr e \<Rightarrow> distance e = planarMagnitude (ClosestLandmark.vector e) \<and> ClosestLandmark.vector e = v)
   \<and> map_sum id distance (normalizeEdit cat g (v\<lparr> z := c \<rparr>) ps)
     = map_sum id distance (normalizeEdit cat g v ps)"
  by (simp add: onClick_recordCall onClick_tsx_recordCall comp_def planarMagnitude_def power2_eq_square
        imageModification_sel imageModification_tsx_sel normalizeEdit_def paramsAccepted_def
        split: option.splits)

text \<open>
  What the handlers hand to the store for a declared landmark: its group and vector as
  declared, one message per landmark, and its optional members as declared (the
  revision without optional members sends none).
\<close>

lemma handlers_pass_declared_edit:
  "map (\<lambda>m. ClosestLandmark.params (landmark m)) (onClick recordCall emotion [])
     = map PresetLandmark.params (landmarks emotion)
   \<and> map (\<lambda>m. ClosestLandmark.vector (landmark m)) (onClick recordCall emotion [])
     = map PresetLandmark.vector (landmarks emotion)
   \<and> map (\<lambda>m. ClosestLandmark.group (landmark m)) (onClick recordCall emotion [])
     = map PresetLandmark.group (landmarks emotion)
   \<and> length (onClick recordCall emotion []) = length (landmarks emotion)
   \<and> map (\<lambda>m. ClosestLandmark.params (landmark m)) (onClick_tsx recordCall emotion [])
     = replicate (length (landmarks emotion)) []
   \<and> map (\<lambda>m. ClosestLandmark.vector (landmark m)) (onClick_tsx recordCall emotion [])
     = map PresetLandmark.vector (landmarks emotion)
   \<and> map (\<lambda>m. ClosestLandmark.group (landmark m)) (onClick_tsx recordCall emotion [])
     = map PresetLandmark.group (landmarks emotion)
   \<and> length (onClick_tsx recordCall emotion []) = length (landmarks emotion)"
  by (simp add: onClick_recordCall onClick_tsx_recordCall comp_def imageModification_sel
        imageModification_tsx_sel map_replicate_const)

text \<open>
  Every message of every preset of the three tables carries only parameters that its
  group has in \<open>shippedCatalog\<close>: no table puts a parameter on a group of another kind.
\<close>

lemma shipped_presets_within_catalog:
  "list_all (\<lambda>p. list_all (\<lambda>m. paramsWithinCatalog shippedCatalog (landmark m))
                     (onClick_tsx recordCall p [])) EMOTION_PRESETS_tsx"
  "list_all (\<lambda>p. list_all (\<lambda>m. paramsWithinCatalog shippedCatalog (landmark m))
                     (onClick recordCall p [])) EMOTION_PRESETS_part_000"
  "list_all (\<lambda>p. list_all (\<lambda>m. paramsWithinCatalog shippedCatalog (landmark m))
                     (onClick recordCall p [])) EMOTION_PRESETS_part_001"
  by (simp_all add: onClick_recordCall onClick_tsx_recordCall EMOTION_PRESETS_tsx_def
        EMOTION_PRESETS_part_000_def EMOTION_PRESETS_part_001_def paramsWithinCatalog_def
        paramsAccepted_def shippedCatalog_def imageModification_sel imageModification_tsx_sel)

section \<open>Properties of the modelled normalizer\<close>

text \<open>
  The modelled catalog lookup fails exactly on the groups that are not registered.
\<close>

lemma paramsAccepted_unknown:
  "paramsAccepted cat g = Inl UnknownLandmarkGroup \<longleftrightarrow> g \<notin> regionsFor cat"
proof (cases "map_of cat g")
  case None
  then have "g \<notin> fst ` set cat"
    by (simp add: map_of_eq_None_iff)
  with None show ?thesis
    by (simp add: paramsAccepted_def regionsFor_def)
next
  case (Some names)
  then have "map_of cat g \<noteq> None"
    by simp
  then have "g \<in> fst ` set cat"
    by (simp add: map_of_eq_None_iff)
  with Some show ?thesis
    by (simp add: paramsAccepted_def regionsFor_def)
qed


lemma normalizeEdit_within_catalog:
  "normalizeEdit cat g v ps = Inr e \<Longrightarrow> paramsWithinCatalog cat e"
  by (auto simp: normalizeEdit_def paramsWithinCatalog_def split: sum.splits)

lemma normalizeEdit_unknown_group:
  "g \<notin> regionsFor cat \<Longrightarrow> normalizeEdit cat g v ps = Inl UnknownLandmarkGroup"
  using paramsAccepted_unknown [of cat g] by (simp add: normalizeEdit_def)



section \<open>Properties of the component\<close>

text \<open>
  C9. When \<^verbatim>\<open>previewImage\<close> is falsy the component returns \<^verbatim>\<open>null\<close> in every revision, so
  there is no button to click: a click changes nothing, and in particular calls
  \<^verbatim>\<open>modifyImage\<close> not once.
\<close>

theorem nothing_rendered_without_preview:
  "\<not> truthy (previewImage store) \<Longrightarrow>
     EmotionPresets_tsx store = None
     \<and> EmotionPresets_part_000 store = None
     \<and> EmotionPresets_part_001 store = None
     \<and> click (EmotionPresets_tsx store) i s = s
     \<and> click (EmotionPresets_part_000 store) i s = s
     \<and> click (EmotionPresets_part_001 store) i s = s"
  by (simp add: EmotionPresets_tsx_def EmotionPresets_part_000_def EmotionPresets_part_001_def
        click_def)

theorem nothing_rendered_witness:
  "EmotionPresets_tsx \<lparr> previewImage = None, modifyImage = recordCall \<rparr> = None
   \<and> EmotionPresets_part_000 \<lparr> previewImage = Some [], modifyImage = recordCall \<rparr> = None
   \<and> EmotionPresets_part_001 \<lparr> previewImage = None, modifyImage = recordCall \<rparr> = None
   \<and> click (EmotionPresets_part_001 \<lparr> previewImage = None, modifyImage = recordCall \<rparr>) 0 [] = []"
  using nothing_rendered_without_preview [of "\<lparr> previewImage = None, modifyImage = recordCall \<rparr>" 0 "[]"]
        nothing_rendered_without_preview [of "\<lparr> previewImage = Some [], modifyImage = recordCall \<rparr>" 0 "[]"]
  by (simp add: truthy_def click_def)

text \<open>
  With a preview image the component does render, and a click on the fifth button of
  revision \<^verbatim>\<open>part_000\<close> (Thinking) sends that preset's three edits.
\<close>

lemma click_when_loaded:
  "click (EmotionPresets_part_000 \<lparr> previewImage = Some ''blob:photo'', modifyImage = recordCall \<rparr>) 4 []
     = map imageModification (landmarks (EMOTION_PRESETS_part_000 ! 4))"
  "length (landmarks (EMOTION_PRESETS_part_000 ! 4)) = 3"
  by (simp_all add: EmotionPresets_part_000_def click_def truthy_def onClick_recordCall
        EMOTION_PRESETS_part_000_def)

section \<open>Properties of the modelled store\<close>

lemma singleEditApply_PRIMARY:
  "singleEditApply fm ''PRIMARY'' e st = st(ClosestLandmark.group e \<mapsto> e)"
  by (simp add: singleEditApply_def)

text \<open>
  After any sequence of \<^verbatim>\<open>PRIMARY\<close> edits, the entry of a group is the last edit of the
  sequence that names the group, and the old entry when no edit names it.
\<close>

lemma fold_PRIMARY_lookup:
  "fold (singleEditApply fm ''PRIMARY'') es st g
     = (if filter (\<lambda>e. ClosestLandmark.group e = g) es = [] then st g
        else Some (last (filter (\<lambda>e. ClosestLandmark.group e = g) es)))"
proof (induction es rule: rev_induct)
  case Nil
  show ?case by simp
next
  case (snoc e es)
  show ?case
  proof (cases "ClosestLandmark.group e = g")
    case True
    then show ?thesis
      by (simp add: singleEditApply_PRIMARY)
  next
    case False
    then show ?thesis
      using snoc.IH by (simp add: singleEditApply_PRIMARY)
  qed
qed

text \<open>
  C1. For every non-empty sequence of edits to one group, applied under \<^verbatim>\<open>PRIMARY\<close> to any
  ExpressionState, the entry of that group is the last edit of the sequence, whole: it
  is what applying the last edit alone would have left there.
\<close>

theorem last_write_wins_per_group:
  assumes "es \<noteq> []" and "\<forall>e \<in> set es. ClosestLandmark.group e = g"
  shows "fold (singleEditApply fm ''PRIMARY'') es st g = Some (last es)
         \<and> fold (singleEditApply fm ''PRIMARY'') es st g
             = singleEditApply fm ''PRIMARY'' (last es) st g"
proof -
  from assms(2) have keep: "filter (\<lambda>e. ClosestLandmark.group e = g) es = es"
    by (simp add: filter_id_conv)
  have "fold (singleEditApply fm ''PRIMARY'') es st g = Some (last es)"
    unfolding fold_PRIMARY_lookup [of fm es st g] keep using assms(1) by simp
  moreover from assms have "ClosestLandmark.group (last es) = g"
    by simp
  ultimately show ?thesis
    by (simp add: singleEditApply_PRIMARY)
qed

text \<open>
  The specification's example: a \<^verbatim>\<open>lips\<close> edit with vector (0.41, 0.21, 0) and the params
  \<^verbatim>\<open>aaa: 13, eee: 12\<close>, then a \<^verbatim>\<open>lips\<close> edit with the zero vector and no params.
\<close>

theorem last_write_wins_lips_example:
  "fold (singleEditApply (\<lambda>md e st. st) ''PRIMARY'')
     [ \<lparr> group = ''lips'', distance = sqrt (0.41 * 0.41 + 0.21 * 0.21),
         vector = \<lparr> x = 0.41, y = 0.21, z = 0 \<rparr>, params = [(aaa, 13), (eee, 12)] \<rparr>,
       \<lparr> group = ''lips'', distance = 0,
         vector = \<lparr> x = 0, y = 0, z = 0 \<rparr>, params = [] \<rparr> ]
     Map.empty ''lips''
   = Some \<lparr> group = ''lips'', distance = 0, vector = \<lparr> x = 0, y = 0, z = 0 \<rparr>, params = [] \<rparr>"
  using last_write_wins_per_group
    [of "[ \<lparr> group = ''lips'', distance = sqrt (0.41 * 0.41 + 0.21 * 0.21),
             vector = \<lparr> x = 0.41, y = 0.21, z = 0 \<rparr>, params = [(aaa, 13), (eee, 12)] \<rparr>,
           \<lparr> group = ''lips'', distance = 0,
             vector = \<lparr> x = 0, y = 0, z = 0 \<rparr>, params = [] \<rparr> ]"
        "''lips''" "\<lambda>md e st. st" Map.empty]
  by simp

text \<open>
  C4. Applying an edit twice in succession leaves the ExpressionState that applying it
  once leaves: for single-edit apply under \<^verbatim>\<open>PRIMARY\<close>, and for the ExpressionState of a
  session that receives the same preset message twice, whatever the backend answers.
\<close>

theorem single_edit_apply_idempotent:
  "singleEditApply fm ''PRIMARY'' e (singleEditApply fm ''PRIMARY'' e st)
     = singleEditApply fm ''PRIMARY'' e st
   \<and> expressionState (modifyImage_spec fm backend' (imageModification l)
                        (modifyImage_spec fm backend (imageModification l) s))
     = expressionState (modifyImage_spec fm backend (imageModification l) s)
   \<and> expressionState (modifyImage_spec fm backend' (imageModification_tsx l)
                        (modifyImage_spec fm backend (imageModification_tsx l) s))
     = expressionState (modifyImage_spec fm backend (imageModification_tsx l) s)"
  by (simp add: singleEditApply_PRIMARY modifyImage_spec_def Let_def imageModification_sel
        imageModification_tsx_sel split: option.splits)

lemma modifyImage_spec_sel:
  "expressionState (modifyImage_spec fm backend m s)
     = singleEditApply fm (mode m) (landmark m) (expressionState s)"
  "outbound (modifyImage_spec fm backend m s) = outbound s @ [EditMessage (landmark m)]"
  "originalPhoto (previewState (modifyImage_spec fm backend m s)) = originalPhoto (previewState s)"
  by (simp_all add: modifyImage_spec_def Let_def split: option.splits)

lemma modifyImage_spec_failed:
  assumes "backend (outbound s) (landmark m) = None"
  shows "previewState (modifyImage_spec fm backend m s) = previewState s"
    and "reports (modifyImage_spec fm backend m s) = reports s @ [Inl DispatchFailed]"
  using assms by (simp_all add: modifyImage_spec_def Let_def)

lemma modifyImage_spec_reports:
  "\<exists>r. reports (modifyImage_spec fm backend m s) = reports s @ [r]"
  by (simp add: modifyImage_spec_def Let_def split: option.splits)

lemma run_expressionState:
  "expressionState (forEach (\<lambda>l. modifyImage_spec fm backend (F l)) ls s)
     = fold (\<lambda>l. singleEditApply fm (mode (F l)) (landmark (F l))) ls (expressionState s)"
  by (induction ls arbitrary: s) (simp_all add: modifyImage_spec_sel)

lemma run_outbound:
  "outbound (forEach (\<lambda>l. modifyImage_spec fm backend (F l)) ls s)
     = outbound s @ map (\<lambda>l. EditMessage (landmark (F l))) ls"
  by (induction ls arbitrary: s) (simp_all add: modifyImage_spec_sel)

lemma run_reports:
  "\<exists>rs. reports (forEach (\<lambda>l. modifyImage_spec fm backend (F l)) ls s) = reports s @ rs
        \<and> length rs = length ls"
proof (induction ls arbitrary: s)
  case Nil
  show ?case by simp
next
  case (Cons l ls)
  let ?s1 = "modifyImage_spec fm backend (F l) s"
  obtain r where r: "reports ?s1 = reports s @ [r]"
    using modifyImage_spec_reports by blast
  obtain rs where rs: "reports (forEach (\<lambda>l. modifyImage_spec fm backend (F l)) ls ?s1) = reports ?s1 @ rs"
    and len: "length rs = length ls"
    using Cons.IH [of ?s1] by blast
  have "reports (forEach (\<lambda>l. modifyImage_spec fm backend (F l)) (l # ls) s) = reports s @ (r # rs)"
    by (simp add: rs r)
  moreover have "length (r # rs) = length (l # ls)"
    by (simp add: len)
  ultimately show ?case by blast
qed

lemma fold_PRIMARY_map:
  assumes "\<And>l. mode (F l) = ''PRIMARY''"
  shows "fold (\<lambda>l. singleEditApply fm (mode (F l)) (landmark (F l))) ls st
           = fold (singleEditApply fm ''PRIMARY'') (map (\<lambda>l. landmark (F l)) ls) st"
  by (induction ls arbitrary: st) (simp_all add: assms)

text \<open>
  A failed dispatch in the middle of a loop that sends \<open>F l\<close> for every landmark \<open>l\<close>, all
  of them under \<^verbatim>\<open>PRIMARY\<close>: the general form, for either revision of the handler.
\<close>

lemma failed_dispatch_general:
  fixes F :: "PresetLandmark \<Rightarrow> ImageModification"
  assumes PRIMARY: "\<And>l. mode (F l) = ''PRIMARY''"
    and k: "k < length ls"
    and fails: "backend (outbound (forEach (\<lambda>l. modifyImage_spec fm backend (F l)) (take k ls) s0))
                  (landmark (F (ls ! k))) = None"
  shows "expressionState (forEach (\<lambda>l. modifyImage_spec fm backend (F l)) (take (Suc k) ls) s0)
           = fold (singleEditApply fm ''PRIMARY'') (map (\<lambda>l. landmark (F l)) (take (Suc k) ls)) (expressionState s0)"
    and "expressionState (forEach (\<lambda>l. modifyImage_spec fm backend (F l)) (take (Suc k) ls) s0)
           (ClosestLandmark.group (landmark (F (ls ! k)))) = Some (landmark (F (ls ! k)))"
    and "previewState (forEach (\<lambda>l. modifyImage_spec fm backend (F l)) (take (Suc k) ls) s0)
           = previewState (forEach (\<lambda>l. modifyImage_spec fm backend (F l)) (take k ls) s0)"
    and "reports (forEach (\<lambda>l. modifyImage_spec fm backend (F l)) (take (Suc k) ls) s0)
           = reports (forEach (\<lambda>l. modifyImage_spec fm backend (F l)) (take k ls) s0) @ [Inl DispatchFailed]"
    and "outbound (forEach (\<lambda>l. modifyImage_spec fm backend (F l)) ls s0)
           = outbound s0 @ map (\<lambda>l. EditMessage (landmark (F l))) ls"
    and "expressionState (forEach (\<lambda>l. modifyImage_spec fm backend (F l)) ls s0)
           = fold (singleEditApply fm ''PRIMARY'') (map (\<lambda>l. landmark (F l)) ls) (expressionState s0)"
    and "reports (forEach (\<lambda>l. modifyImage_spec fm backend (F l)) ls s0) ! (length (reports s0) + k)
           = Inl DispatchFailed"
proof -
  let ?run = "\<lambda>ls s. forEach (\<lambda>l. modifyImage_spec fm backend (F l)) ls s"
  let ?sk = "?run (take k ls) s0"
  let ?sk1 = "?run (take (Suc k) ls) s0"
  from k have step: "?sk1 = modifyImage_spec fm backend (F (ls ! k)) ?sk"
    by (simp add: take_Suc_conv_app_nth forEach_append)
  show "expressionState ?sk1
          = fold (singleEditApply fm ''PRIMARY'') (map (\<lambda>l. landmark (F l)) (take (Suc k) ls)) (expressionState s0)"
    by (simp only: run_expressionState fold_PRIMARY_map [OF PRIMARY])
  show "expressionState ?sk1 (ClosestLandmark.group (landmark (F (ls ! k)))) = Some (landmark (F (ls ! k)))"
    by (simp add: step modifyImage_spec_sel PRIMARY singleEditApply_def)
  show "previewState ?sk1 = previewState ?sk"
    using fails by (simp add: step modifyImage_spec_failed(1))
  show rep: "reports ?sk1 = reports ?sk @ [Inl DispatchFailed]"
    using fails by (simp add: step modifyImage_spec_failed(2))
  show "outbound (?run ls s0) = outbound s0 @ map (\<lambda>l. EditMessage (landmark (F l))) ls"
    by (rule run_outbound)
  show "expressionState (?run ls s0)
          = fold (singleEditApply fm ''PRIMARY'') (map (\<lambda>l. landmark (F l)) ls) (expressionState s0)"
    by (simp only: run_expressionState fold_PRIMARY_map [OF PRIMARY])
  have whole: "?run ls s0 = ?run (drop (Suc k) ls) ?sk1"
    using forEach_append [of "\<lambda>l. modifyImage_spec fm backend (F l)" "take (Suc k) ls" "drop (Suc k) ls" s0]
    by simp
  obtain rs where rs: "reports ?sk = reports s0 @ rs" and lenk: "length rs = k"
    using run_reports [of fm backend F "take k ls" s0] k by auto
  obtain rs' where rs': "reports (?run ls s0) = reports ?sk1 @ rs'"
    unfolding whole using run_reports [of fm backend F "drop (Suc k) ls" ?sk1] by blast
  have "reports (?run ls s0) ! (length (reports s0) + k) = reports ?sk1 ! (length (reports s0) + k)"
    by (simp add: rs' rep rs lenk nth_append)
  also have "\<dots> = Inl DispatchFailed"
    by (simp add: rep rs lenk nth_append)
  finally show "reports (?run ls s0) ! (length (reports s0) + k) = Inl DispatchFailed" .
qed

lemma activatePreset_forEach:
  "activatePreset fm backend emotion s
     = forEach (\<lambda>l. modifyImage_spec fm backend (imageModification l)) (landmarks emotion) s"
  "activatePreset fm backend (firstEdits j emotion) s
     = forEach (\<lambda>l. modifyImage_spec fm backend (imageModification l)) (take j (landmarks emotion)) s"
  by (simp_all add: activatePreset_def onClick_def firstEdits_def)

lemma activatePreset_tsx_forEach:
  "activatePreset_tsx fm backend emotion s
     = forEach (\<lambda>l. modifyImage_spec fm backend (imageModification_tsx l)) (landmarks emotion) s"
  "activatePreset_tsx fm backend (firstEdits j emotion) s
     = forEach (\<lambda>l. modifyImage_spec fm backend (imageModification_tsx l)) (take j (landmarks emotion)) s"
  by (simp_all add: activatePreset_tsx_def onClick_tsx_def firstEdits_def)

text \<open>
  The state after the first \<open>k\<close> edits is a state of the loop: the activation of the whole
  preset is the activation of its remaining edits from there.
\<close>

lemma activatePreset_resumes:
  "activatePreset fm backend emotion s
     = activatePreset fm backend (emotion\<lparr> landmarks := drop j (landmarks emotion) \<rparr>)
         (activatePreset fm backend (firstEdits j emotion) s)"
  "activatePreset_tsx fm backend emotion s
     = activatePreset_tsx fm backend (emotion\<lparr> landmarks := drop j (landmarks emotion) \<rparr>)
         (activatePreset_tsx fm backend (firstEdits j emotion) s)"
  using forEach_append [of _ "take j (landmarks emotion)" "drop j (landmarks emotion)" s]
  by (simp_all add: activatePreset_def activatePreset_tsx_def onClick_def onClick_tsx_def firstEdits_def)

text \<open>
  C6. Let the dispatch of the edit at position \<open>k\<close> of a preset fail (positions count from
  0), in either revision of the handler. Then, in this order of the conclusions: after
  that edit the ExpressionState holds all edits up to and including it, merged last
  write wins, and the entry of its group is the edit itself; the Preview State is what
  it was before the edit; the failure has been reported as \<open>DispatchFailed\<close>; at the end
  of the activation one message per declared edit has gone out, the later ones too, in
  declared order; the final ExpressionState holds every declared edit, none rolled back;
  and the report of the failure is still in its place.
\<close>

theorem failed_dispatch_keeps_merge_and_goes_on:
  assumes k: "k < length (landmarks emotion)"
  shows
   "(backend (outbound (activatePreset_tsx fm backend (firstEdits k emotion) s0))
       (landmark (imageModification_tsx (landmarks emotion ! k))) = None \<longrightarrow>
       expressionState (activatePreset_tsx fm backend (firstEdits (Suc k) emotion) s0)
         = fold (singleEditApply fm ''PRIMARY'')
             (map (\<lambda>l. landmark (imageModification_tsx l)) (take (Suc k) (landmarks emotion)))
             (expressionState s0)
     \<and> expressionState (activatePreset_tsx fm backend (firstEdits (Suc k) emotion) s0)
           (PresetLandmark.group (landmarks emotion ! k))
         = Some (landmark (imageModification_tsx (landmarks emotion ! k)))
     \<and> previewState (activatePreset_tsx fm backend (firstEdits (Suc k) emotion) s0)
         = previewState (activatePreset_tsx fm backend (firstEdits k emotion) s0)
     \<and> reports (activatePreset_tsx fm backend (firstEdits (Suc k) emotion) s0)
         = reports (activatePreset_tsx fm backend (firstEdits k emotion) s0) @ [Inl DispatchFailed]
     \<and> outbound (activatePreset_tsx fm backend emotion s0)
         = outbound s0 @ map (\<lambda>l. EditMessage (landmark (imageModification_tsx l))) (landmarks emotion)
     \<and> expressionState (activatePreset_tsx fm backend emotion s0)
         = fold (singleEditApply fm ''PRIMARY'')
             (map (\<lambda>l. landmark (imageModification_tsx l)) (landmarks emotion))
             (expressionState s0)
     \<and> reports (activatePreset_tsx fm backend emotion s0) ! (length (reports s0) + k)
         = Inl DispatchFailed)
  \<and> (backend (outbound (activatePreset fm backend (firstEdits k emotion) s0))
       (landmark (imageModification (landmarks emotion ! k))) = None \<longrightarrow>
       expressionState (activatePreset fm backend (firstEdits (Suc k) emotion) s0)
         = fold (singleEditApply fm ''PRIMARY'')
             (map (\<lambda>l. landmark (imageModification l)) (take (Suc k) (landmarks emotion)))
             (expressionState s0)
     \<and> expressionState (activatePreset fm backend (firstEdits (Suc k) emotion) s0)
           (PresetLandmark.group (landmarks emotion ! k))
         = Some (landmark (imageModification (landmarks emotion ! k)))
     \<and> previewState (activatePreset fm backend (firstEdits (Suc k) emotion) s0)
         = previewState (activatePreset fm backend (firstEdits k emotion) s0)
     \<and> reports (activatePreset fm backend (firstEdits (Suc k) emotion) s0)
         = reports (activatePreset fm backend (firstEdits k emotion) s0) @ [Inl DispatchFailed]
     \<and> outbound (activatePreset fm backend emotion s0)
         = outbound s0 @ map (\<lambda>l. EditMessage (landmark (imageModification l))) (landmarks emotion)
     \<and> expressionState (activatePreset fm backend emotion s0)
         = fold (singleEditApply fm ''PRIMARY'')
             (map (\<lambda>l. landmark (imageModification l)) (landmarks emotion))
             (expressionState s0)
     \<and> reports (activatePreset fm backend emotion s0) ! (length (reports s0) + k)
         = Inl DispatchFailed)"
proof (intro conjI impI)
  assume fails: "backend (outbound (activatePreset_tsx fm backend (firstEdits k emotion) s0))
       (landmark (imageModification_tsx (landmarks emotion ! k))) = None"
  note gen = failed_dispatch_general [where F = imageModification_tsx and fm = fm and backend = backend
      and ls = "landmarks emotion" and k = k and ?s0.0 = s0,
      OF imageModification_tsx_sel(1) k fails [unfolded activatePreset_tsx_forEach(2)],
      folded activatePreset_tsx_forEach]
  show "expressionState (activatePreset_tsx fm backend (firstEdits (Suc k) emotion) s0)
         = fold (singleEditApply fm ''PRIMARY'')
             (map (\<lambda>l. landmark (imageModification_tsx l)) (take (Suc k) (landmarks emotion)))
             (expressionState s0)"
    by (rule gen(1))
  show "expressionState (activatePreset_tsx fm backend (firstEdits (Suc k) emotion) s0)
           (PresetLandmark.group (landmarks emotion ! k))
         = Some (landmark (imageModification_tsx (landmarks emotion ! k)))"
    using gen(2) by (simp add: imageModification_tsx_sel)
  show "previewState (activatePreset_tsx fm backend (firstEdits (Suc k) emotion) s0)
         = previewState (activatePreset_tsx fm backend (firstEdits k emotion) s0)"
    by (rule gen(3))
  show "reports (activatePreset_tsx fm backend (firstEdits (Suc k) emotion) s0)
         = reports (activatePreset_tsx fm backend (firstEdits k emotion) s0) @ [Inl DispatchFailed]"
    by (rule gen(4))
  show "outbound (activatePreset_tsx fm backend emotion s0)
         = outbound s0 @ map (\<lambda>l. EditMessage (landmark (imageModification_tsx l))) (landmarks emotion)"
    by (rule gen(5))
  show "expressionState (activatePreset_tsx fm backend emotion s0)
         = fold (singleEditApply fm ''PRIMARY'')
             (map (\<lambda>l. landmark (imageModification_tsx l)) (landmarks emotion))
             (expressionState s0)"
    by (rule gen(6))
  show "reports (activatePreset_tsx fm backend emotion s0) ! (length (reports s0) + k)
         = Inl DispatchFailed"
    by (rule gen(7))
next
  assume fails: "backend (outbound (activatePreset fm backend (firstEdits k emotion) s0))
       (landmark (imageModification (landmarks emotion ! k))) = None"
  note gen = failed_dispatch_general [where F = imageModification and fm = fm and backend = backend
      and ls = "landmarks emotion" and k = k and ?s0.0 = s0,
      OF imageModification_sel(1) k fails [unfolded activatePreset_forEach(2)],
      folded activatePreset_forEach]
  show "expressionState (activatePreset fm backend (firstEdits (Suc k) emotion) s0)
         = fold (singleEditApply fm ''PRIMARY'')
             (map (\<lambda>l. landmark (imageModification l)) (take (Suc k) (landmarks emotion)))
             (expressionState s0)"
    by (rule gen(1))
  show "expressionState (activatePreset fm backend (firstEdits (Suc k) emotion) s0)
           (PresetLandmark.group (landmarks emotion ! k))
         = Some (landmark (imageModification (landmarks emotion ! k)))"
    using gen(2) by (simp add: imageModification_sel)
  show "previewState (activatePreset fm backend (firstEdits (Suc k) emotion) s0)
         = previewState (activatePreset fm backend (firstEdits k emotion) s0)"
    by (rule gen(3))
  show "reports (activatePreset fm backend (firstEdits (Suc k) emotion) s0)
         = reports (activatePreset fm backend (firstEdits k emotion) s0) @ [Inl DispatchFailed]"
    by (rule gen(4))
  show "outbound (activatePreset fm backend emotion s0)
         = outbound s0 @ map (\<lambda>l. EditMessage (landmark (imageModification l))) (landmarks emotion)"
    by (rule gen(5))
  show "expressionState (activatePreset fm backend emotion s0)
         = fold (singleEditApply fm ''PRIMARY'')
             (map (\<lambda>l. landmark (imageModification l)) (landmarks emotion))
             (expressionState s0)"
    by (rule gen(6))
  show "reports (activatePreset fm backend emotion s0) ! (length (reports s0) + k)
         = Inl DispatchFailed"
    by (rule gen(7))
qed

lemma thinking_tsx:
  "landmarks (EMOTION_PRESETS_tsx ! 4)
     = [ \<lparr> PresetLandmark.group = ''faceOval'', vector = \<lparr> x = 0.3, y = 0, z = 0 \<rparr>, params = [] \<rparr>,
         \<lparr> PresetLandmark.group = ''leftEyebrow'', vector = \<lparr> x = 0, y = - 0.2, z = 0 \<rparr>, params = [] \<rparr>,
         \<lparr> PresetLandmark.group = ''lips'', vector = \<lparr> x = 0.2, y = 0, z = 0 \<rparr>, params = [] \<rparr> ]"
  by (simp add: EMOTION_PRESETS_tsx_def)

text \<open>
  The specification's example: the three-edit preset Thinking, activated on a fresh
  session against a backend that fails the second dispatch only. The second edit
  (\<^verbatim>\<open>leftEyebrow\<close>) is in the ExpressionState, the Preview State is that of the first
  edit, three messages have gone out, and the second report is \<open>DispatchFailed\<close>.
\<close>

theorem failed_second_dispatch_thinking:
  "secondDispatchFails
      (outbound (activatePreset_tsx (\<lambda>md e st. st) secondDispatchFails
                   (firstEdits 1 (EMOTION_PRESETS_tsx ! 4)) (newSession ''photo'')))
      (landmark (imageModification_tsx (landmarks (EMOTION_PRESETS_tsx ! 4) ! 1))) = None
   \<and> expressionState (activatePreset_tsx (\<lambda>md e st. st) secondDispatchFails
                         (firstEdits 2 (EMOTION_PRESETS_tsx ! 4)) (newSession ''photo'')) ''leftEyebrow''
       = Some (landmark (imageModification_tsx (landmarks (EMOTION_PRESETS_tsx ! 4) ! 1)))
   \<and> previewState (activatePreset_tsx (\<lambda>md e st. st) secondDispatchFails
                      (firstEdits 2 (EMOTION_PRESETS_tsx ! 4)) (newSession ''photo''))
       = previewState (activatePreset_tsx (\<lambda>md e st. st) secondDispatchFails
                         (firstEdits 1 (EMOTION_PRESETS_tsx ! 4)) (newSession ''photo''))
   \<and> outbound (activatePreset_tsx (\<lambda>md e st. st) secondDispatchFails
                  (EMOTION_PRESETS_tsx ! 4) (newSession ''photo''))
       = map (\<lambda>l. EditMessage (landmark (imageModification_tsx l))) (landmarks (EMOTION_PRESETS_tsx ! 4))
   \<and> reports (activatePreset_tsx (\<lambda>md e st. st) secondDispatchFails
                 (EMOTION_PRESETS_tsx ! 4) (newSession ''photo'')) ! 1
       = Inl DispatchFailed
   \<and> secondDispatchFails
      (outbound (activatePreset (\<lambda>md e st. st) secondDispatchFails
                   (firstEdits 1 (EMOTION_PRESETS_tsx ! 4)) (newSession ''photo'')))
      (landmark (imageModification (landmarks (EMOTION_PRESETS_tsx ! 4) ! 1))) = None
   \<and> expressionState (activatePreset (\<lambda>md e st. st) secondDispatchFails
                         (firstEdits 2 (EMOTION_PRESETS_tsx ! 4)) (newSession ''photo'')) ''leftEyebrow''
       = Some (landmark (imageModification (landmarks (EMOTION_PRESETS_tsx ! 4) ! 1)))
   \<and> previewState (activatePreset (\<lambda>md e st. st) secondDispatchFails
                      (firstEdits 2 (EMOTION_PRESETS_tsx ! 4)) (newSession ''photo''))
       = previewState (activatePreset (\<lambda>md e st. st) secondDispatchFails
                         (firstEdits 1 (EMOTION_PRESETS_tsx ! 4)) (newSession ''photo''))
   \<and> outbound (activatePreset (\<lambda>md e st. st) secondDispatchFails
                  (EMOTION_PRESETS_tsx ! 4) (newSession ''photo''))
       = map (\<lambda>l. EditMessage (landmark (imageModification l))) (landmarks (EMOTION_PRESETS_tsx ! 4))
   \<and> reports (activatePreset (\<lambda>md e st. st) secondDispatchFails
                 (EMOTION_PRESETS_tsx ! 4) (newSession ''photo'')) ! 1
       = Inl DispatchFailed"
proof -
  have k: "1 < length (landmarks (EMOTION_PRESETS_tsx ! 4))"
    by (simp add: thinking_tsx)
  have out0: "outbound (newSession ''photo'') = []" "reports (newSession ''photo'') = []"
    by (simp_all add: newSession_def)
  have grp: "PresetLandmark.group (landmarks (EMOTION_PRESETS_tsx ! 4) ! 1) = ''leftEyebrow''"
    by (simp add: thinking_tsx)
  have f_tsx: "secondDispatchFails
      (outbound (activatePreset_tsx (\<lambda>md e st. st) secondDispatchFails
                   (firstEdits 1 (EMOTION_PRESETS_tsx ! 4)) (newSession ''photo'')))
      (landmark (imageModification_tsx (landmarks (EMOTION_PRESETS_tsx ! 4) ! 1))) = None"
    by (simp add: activatePreset_tsx_forEach(2) run_outbound modifyImage_spec_sel out0 thinking_tsx
          secondDispatchFails_def)
  have f_part: "secondDispatchFails
      (outbound (activatePreset (\<lambda>md e st. st) secondDispatchFails
                   (firstEdits 1 (EMOTION_PRESETS_tsx ! 4)) (newSession ''photo'')))
      (landmark (imageModification (landmarks (EMOTION_PRESETS_tsx ! 4) ! 1))) = None"
    by (simp add: activatePreset_forEach(2) run_outbound modifyImage_spec_sel out0 thinking_tsx
          secondDispatchFails_def)
  have two: "Suc 1 = 2" and idx: "length ([] :: (error + string) list) + 1 = 1"
    by simp_all
  note inst = failed_dispatch_keeps_merge_and_goes_on
    [OF k, of secondDispatchFails "\<lambda>md e st. st" "newSession ''photo''"]
  note tsx = inst [THEN conjunct1, THEN mp, OF f_tsx, unfolded out0 grp two idx append_Nil]
  note part = inst [THEN conjunct2, THEN mp, OF f_part, unfolded out0 grp two idx append_Nil]
  from f_tsx f_part tsx part show ?thesis
    by blast
qed

lemma fold_originalPhoto:
  "originalPhoto (previewState (fold (modifyImage_spec fm backend) history s))
     = originalPhoto (previewState s)"
  by (induction history arbitrary: s) (simp_all add: modifyImage_spec_sel)

text \<open>
  C7. Resetting any session leaves an empty ExpressionState and no rendered artifact,
  keeps the original photo, and sends the backend the signal to restore it. After any
  history of edits on a photo, with any backend answers, the reset session has the
  ExpressionState and the Preview State of the session that loading the photo created,
  and the restore signal is the last thing sent.
\<close>

theorem reset_discards_session:
  "expressionState (resetSession s) = Map.empty
   \<and> renderedArtifact (previewState (resetSession s)) = None
   \<and> originalPhoto (previewState (resetSession s)) = originalPhoto (previewState s)
   \<and> outbound (resetSession s) = outbound s @ [RestoreOriginal]
   \<and> expressionState (resetSession (fold (modifyImage_spec fm backend) history (newSession photo)))
       = expressionState (newSession photo)
   \<and> previewState (resetSession (fold (modifyImage_spec fm backend) history (newSession photo)))
       = previewState (newSession photo)
   \<and> last (outbound (resetSession (fold (modifyImage_spec fm backend) history (newSession photo))))
       = RestoreOriginal"
proof -
  have "originalPhoto (previewState (fold (modifyImage_spec fm backend) history (newSession photo))) = photo"
    by (simp add: fold_originalPhoto newSession_def)
  then have "previewState (resetSession (fold (modifyImage_spec fm backend) history (newSession photo)))
       = previewState (newSession photo)"
    by (simp add: resetSession_def newSession_def)
  then show ?thesis
    by (simp add: resetSession_def newSession_def)
qed

end
